theory Spec2Isabelle
  imports Main
begin

section \<open>Go library functions used by cmd/functions.go\<close>

text \<open>
  A Go string is a sequence of bytes; it is modelled as \<open>string\<close> (a list of
  \<open>char\<close>, one per byte).
\<close>

definition HasPrefix :: "string \<Rightarrow> string \<Rightarrow> bool" where
  \<comment> \<open>strings.HasPrefix\<close>
  "HasPrefix s pre = (take (length pre) s = pre)"

definition TrimPrefix :: "string \<Rightarrow> string \<Rightarrow> string" where
  \<comment> \<open>strings.TrimPrefix\<close>
  "TrimPrefix s pre = (if HasPrefix s pre then drop (length pre) s else s)"

fun Contains :: "string \<Rightarrow> string \<Rightarrow> bool" where
  \<comment> \<open>strings.Contains: \<open>sub\<close> occurs in \<open>s\<close> as a contiguous run of bytes\<close>
  "Contains [] sub = (sub = [])"
| "Contains (c # s) sub = (HasPrefix (c # s) sub \<or> Contains s sub)"

fun Split :: "string \<Rightarrow> char \<Rightarrow> string list" where
  \<comment> \<open>strings.Split with a one-byte separator\<close>
  "Split [] sep = [[]]"
| "Split (c # s) sep =
     (if c = sep then [] # Split s sep
      else (case Split s sep of [] \<Rightarrow> [[c]] | p # ps \<Rightarrow> (c # p) # ps))"

definition white_space :: "string list" where
  \<comment> \<open>the UTF-8 encodings of the code points for which unicode.IsSpace holds\<close>
  "white_space =
     [[CHR 0x09], [CHR 0x0A], [CHR 0x0B], [CHR 0x0C], [CHR 0x0D], [CHR 0x20],
      [CHR 0xC2, CHR 0x85], [CHR 0xC2, CHR 0xA0],
      [CHR 0xE1, CHR 0x9A, CHR 0x80],
      [CHR 0xE2, CHR 0x80, CHR 0x80], [CHR 0xE2, CHR 0x80, CHR 0x81],
      [CHR 0xE2, CHR 0x80, CHR 0x82], [CHR 0xE2, CHR 0x80, CHR 0x83],
      [CHR 0xE2, CHR 0x80, CHR 0x84], [CHR 0xE2, CHR 0x80, CHR 0x85],
      [CHR 0xE2, CHR 0x80, CHR 0x86], [CHR 0xE2, CHR 0x80, CHR 0x87],
      [CHR 0xE2, CHR 0x80, CHR 0x88], [CHR 0xE2, CHR 0x80, CHR 0x89],
      [CHR 0xE2, CHR 0x80, CHR 0x8A],
      [CHR 0xE2, CHR 0x80, CHR 0xA8], [CHR 0xE2, CHR 0x80, CHR 0xA9],
      [CHR 0xE2, CHR 0x80, CHR 0xAF], [CHR 0xE2, CHR 0x81, CHR 0x9F],
      [CHR 0xE3, CHR 0x80, CHR 0x80]]"

fun trim_left :: "string list \<Rightarrow> string \<Rightarrow> string" where
  \<comment> \<open>drop leading runs of bytes that are one of the encodings \<open>encs\<close>\<close>
  "trim_left encs [] = []"
| "trim_left encs (c # s) =
     (case filter (\<lambda>e. e \<noteq> [] \<and> HasPrefix (c # s) e) encs of
        [] \<Rightarrow> c # s
      | e # _ \<Rightarrow> trim_left encs (drop (length e - 1) s))"

definition TrimSpace :: "string \<Rightarrow> string" where
  \<comment> \<open>strings.TrimSpace: leading and trailing white space removed\<close>
  "TrimSpace s = rev (trim_left (map rev white_space) (rev (trim_left white_space s)))"

text \<open>
  A \<open>time.Time\<close> is modelled as the integer count of nanoseconds since the epoch,
  a \<open>time.Duration\<close> as an integer count of nanoseconds in the int64 range.
  \<open>Time.Sub\<close> saturates at the ends of that range.
\<close>

definition maxDuration :: int where
  "maxDuration = 2 ^ 63 - 1"

definition minDuration :: int where
  "minDuration = - (2 ^ 63)"

definition time_Sub :: "int \<Rightarrow> int \<Rightarrow> int" where
  "time_Sub t u =
     (let d = t - u
      in if d > maxDuration then maxDuration
         else if d < minDuration then minDuration
         else d)"

definition Hour :: int where
  "Hour = 3600 * 1000000000"

text \<open>
  Errors. \<open>Errorf\<close> is an error made by \<open>fmt.Errorf\<close> from a format string and
  its arguments; \<open>ErrorfW\<close> is one whose format has a \<open>%w\<close> verb, and carries the
  wrapped error; \<open>RateLimitError\<close> is the pointer to the struct of that name;
  \<open>LibError\<close> is an error value returned by a library call (os, afero, net/http,
  encoding/json), with its message.
\<close>

datatype arg = S string | D nat

datatype error =
    Errorf string "arg list"
  | ErrorfW string "arg list" error
  | RateLimitError string
  | LibError string

fun Unwrap :: "error \<Rightarrow> error option" where
  \<comment> \<open>errors.Unwrap\<close>
  "Unwrap (ErrorfW f as e) = Some e"
| "Unwrap e = None"

fun As_RateLimitError :: "error \<Rightarrow> string option" where
  \<comment> \<open>errors.As with a target of type *RateLimitError: the first such error in the
      chain of wrapped errors, here its Message\<close>
  "As_RateLimitError (RateLimitError m) = Some m"
| "As_RateLimitError (ErrorfW f as e) = As_RateLimitError e"
| "As_RateLimitError e = None"

section \<open>Configuration\<close>

text \<open>
  The environment the process runs in: the values \<open>os.Getenv\<close> returns for the
  variables the code reads (the empty string when a variable is unset), the result of
  \<open>os.UserHomeDir\<close>, and the platform's \<open>filepath.IsAbs\<close> and \<open>filepath.Join\<close>.
  \<open>CACHE_EXPIRATION\<close> is the value of \<open>time.ParseDuration\<close> on
  CROSSBENCH_CACHE_EXPIRATION: \<open>None\<close> when the variable is empty or does not parse.
\<close>

record env =
  CACHE_EXPIRATION :: "int option"
  CACHE_DIR :: string
  CACHE_FILENAME :: string
  DEFAULT_GITHUB_OWNER :: string
  DEFAULT_PACKAGE_REGISTRY :: string
  UPBOUND_PACKAGE_REGISTRY :: string
  UPBOUND_FUNCTIONS :: string
  GITHUB_API_URL :: string
  UserHomeDir :: "string option"
  IsAbs :: "string \<Rightarrow> bool"
  Join :: "string \<Rightarrow> string \<Rightarrow> string"

definition getCacheExpiration :: "env \<Rightarrow> int" where
  "getCacheExpiration env =
     (case CACHE_EXPIRATION env of Some d \<Rightarrow> d | None \<Rightarrow> 24 * Hour)"

definition getDefaultGitHubOwner :: "env \<Rightarrow> string" where
  "getDefaultGitHubOwner env =
     (if DEFAULT_GITHUB_OWNER env \<noteq> [] then DEFAULT_GITHUB_OWNER env
      else ''crossplane-contrib'')"

definition getDefaultPackageRegistry :: "env \<Rightarrow> string" where
  "getDefaultPackageRegistry env =
     (if DEFAULT_PACKAGE_REGISTRY env \<noteq> [] then DEFAULT_PACKAGE_REGISTRY env
      else ''xpkg.crossplane.io'')"

definition getUpboundPackageRegistry :: "env \<Rightarrow> string" where
  "getUpboundPackageRegistry env =
     (if UPBOUND_PACKAGE_REGISTRY env \<noteq> [] then UPBOUND_PACKAGE_REGISTRY env
      else ''xpkg.upbound.io'')"

definition getUpboundFunctionNames :: "env \<Rightarrow> string list" where
  "getUpboundFunctionNames env =
     (if UPBOUND_FUNCTIONS env \<noteq> [] then Split (UPBOUND_FUNCTIONS env) (CHR '','')
      else [''function-unit-test''])"

definition getGitHubAPIURL :: "env \<Rightarrow> string" where
  "getGitHubAPIURL env =
     (if GITHUB_API_URL env \<noteq> [] then GITHUB_API_URL env
      else ''https://api.github.com'')"

section \<open>The version cache\<close>

record CacheEntry =
  Version :: string
  FetchedAt :: int

text \<open>
  \<open>FunctionVersionCache\<close> has one field, the map \<open>Versions\<close>; the struct is modelled
  as that map. The functions below receive a pointer to the struct: the model takes the
  store and returns the store the pointer refers to afterwards. \<open>now\<close> is the reading
  of the clock that \<open>time.Since\<close> or \<open>time.Now\<close> takes.
\<close>

type_synonym FunctionVersionCache = "string \<rightharpoonup> CacheEntry"

definition getCachedVersion ::
  "env \<Rightarrow> int \<Rightarrow> FunctionVersionCache \<Rightarrow> string \<Rightarrow> (string \<times> bool) \<times> FunctionVersionCache" where
  "getCachedVersion env now cache cacheKey =
     (case cache cacheKey of
        None \<Rightarrow> (([], False), cache)
      | Some entry \<Rightarrow>
          (let age = time_Sub now (FetchedAt entry)
           in if age > getCacheExpiration env then (([], False), cache)
              else ((Version entry, True), cache)))"

definition setCachedVersion ::
  "int \<Rightarrow> FunctionVersionCache \<Rightarrow> string \<Rightarrow> string \<Rightarrow> FunctionVersionCache" where
  "setCachedVersion now cache cacheKey version =
     cache(cacheKey \<mapsto> \<lparr>Version = version, FetchedAt = now\<rparr>)"

section \<open>Name mapping and registry selection\<close>

definition mapFunctionNameToGitHubRepo :: "env \<Rightarrow> string \<Rightarrow> string \<times> string \<times> error option" where
  "mapFunctionNameToGitHubRepo env functionName =
     (let owner = getDefaultGitHubOwner env;
          repo = functionName;
          repo = (if HasPrefix repo ''crossplane-contrib-function-''
                  then ''function-'' @ TrimPrefix repo ''crossplane-contrib-function-''
                  else if HasPrefix repo ''function-'' then repo
                  else ''function-'' @ repo)
      in (owner, repo, None))"

fun registry_loop :: "env \<Rightarrow> string list \<Rightarrow> string \<Rightarrow> string" where
  \<comment> \<open>the for loop of getPackageRegistry over the remaining allow-list entries\<close>
  "registry_loop env [] functionName = getDefaultPackageRegistry env"
| "registry_loop env (fn # fns) functionName =
     (if TrimSpace fn = functionName then getUpboundPackageRegistry env
      else registry_loop env fns functionName)"

definition getPackageRegistry :: "env \<Rightarrow> string \<Rightarrow> string" where
  "getPackageRegistry env functionName =
     registry_loop env (getUpboundFunctionNames env) functionName"

section \<open>The outside world\<close>

text \<open>
  What the afero file system holds at a path, as \<open>afero.ReadFile\<close> followed by
  \<open>json.Unmarshal\<close> into a \<open>FunctionVersionCache\<close> sees it: no file, a file that
  cannot be read (with the error's message), bytes that \<open>json.Unmarshal\<close> rejects, or
  bytes it accepts, with the decoded \<open>Versions\<close> map (\<open>None\<close> for a nil map: the
  field is absent or null).
\<close>

datatype file_state =
    NotExist
  | ReadError string
  | InvalidJSON
  | ValidJSON "FunctionVersionCache option"

record GitHubRelease =
  TagName :: string
  ReleaseName :: string

text \<open>
  The result of \<open>client.Do\<close>: a transport error (a timeout or a cancelled context
  included), or a response with its status code, its body and the value
  \<open>json.Decoder.Decode\<close> gives for that body (\<open>None\<close> when decoding fails).
\<close>

datatype http_outcome =
    DoError string
  | Response nat string "GitHubRelease option"

text \<open>
  The trace records, in order, the calls that a resolution makes to the cache and to
  the remote client, the resolutions that an extraction asks for, and the lines written
  to standard error.
\<close>

datatype event =
    Call_inferPackage string
  | Call_loadCache
  | Call_getCachedVersion string
  | Call_fetchLatestReleaseVersion string string
  | Call_setCachedVersion string string
  | Call_saveCache
  | Info_using_cached string string string
  | Warn_rate_limit string string string
  | Warn_save_failed string error

text \<open>
  The state of the world and the answers it gives. \<open>files\<close> is the file system,
  changed only by this process. The other answers are not determined by the program:
  \<open>mkdir_ok n p\<close> says whether \<open>MkdirAll p\<close> succeeds as the n-th file-system
  operation; \<open>write_fails n p\<close> is \<open>None\<close> when \<open>WriteFile\<close> to \<open>p\<close> succeeds and
  otherwise the error's message and what the failed write leaves at \<open>p\<close> (\<open>None\<close>:
  the file as it was); \<open>marshal_fails\<close> is the error of \<open>json.MarshalIndent\<close>, if
  any; \<open>clock n\<close> is the n-th reading of the clock; \<open>NewRequest_fails\<close> is the error
  of \<open>http.NewRequestWithContext\<close> for a URL, if any; \<open>http n url\<close> is the answer to
  the n-th request when it is a GET of \<open>url\<close>. The request's headers, the token lookup
  of \<open>getGitHubToken\<close> and the timeout are part of what \<open>http\<close> answers to.
\<close>

record world =
  files :: "string \<Rightarrow> file_state"
  trace :: "event list"
  fs_ops :: nat
  mkdir_ok :: "nat \<Rightarrow> string \<Rightarrow> bool"
  write_fails :: "nat \<Rightarrow> string \<Rightarrow> (string \<times> file_state option) option"
  marshal_fails :: "FunctionVersionCache \<Rightarrow> string option"
  clock :: "nat \<Rightarrow> int"
  clock_reads :: nat
  NewRequest_fails :: "string \<Rightarrow> string option"
  http :: "nat \<Rightarrow> string \<Rightarrow> http_outcome"
  requests :: nat

definition record_event :: "world \<Rightarrow> event \<Rightarrow> world" where
  "record_event w e = w\<lparr>trace := trace w @ [e]\<rparr>"

definition MkdirAll :: "world \<Rightarrow> string \<Rightarrow> bool \<times> world" where
  "MkdirAll w dir = (mkdir_ok w (fs_ops w) dir, w\<lparr>fs_ops := Suc (fs_ops w)\<rparr>)"

definition ReadFile :: "world \<Rightarrow> string \<Rightarrow> file_state \<times> world" where
  "ReadFile w path = (files w path, w\<lparr>fs_ops := Suc (fs_ops w)\<rparr>)"

definition WriteFile :: "world \<Rightarrow> string \<Rightarrow> FunctionVersionCache \<Rightarrow> error option \<times> world" where
  \<comment> \<open>the data written is the JSON of the store \<open>cache\<close>\<close>
  "WriteFile w path cache =
     (case write_fails w (fs_ops w) path of
        None \<Rightarrow>
          (None, w\<lparr>files := (files w)(path := ValidJSON (Some cache)),
                    fs_ops := Suc (fs_ops w)\<rparr>)
      | Some (msg, left) \<Rightarrow>
          (Some (LibError msg),
           w\<lparr>files := (case left of None \<Rightarrow> files w | Some st \<Rightarrow> (files w)(path := st)),
              fs_ops := Suc (fs_ops w)\<rparr>))"

definition time_Now :: "world \<Rightarrow> int \<times> world" where
  "time_Now w = (clock w (clock_reads w), w\<lparr>clock_reads := Suc (clock_reads w)\<rparr>)"

definition client_Do :: "world \<Rightarrow> string \<Rightarrow> http_outcome \<times> world" where
  "client_Do w url = (http w (requests w) url, w\<lparr>requests := Suc (requests w)\<rparr>)"

section \<open>Cache file\<close>

definition getCachePath :: "env \<Rightarrow> world \<Rightarrow> (string \<times> error option) \<times> world" where
  "getCachePath env w =
     (let cacheDirName = (if CACHE_DIR env = [] then ''.crossbench'' else CACHE_DIR env);
          cacheFileName = (if CACHE_FILENAME env = [] then ''function-versions.json''
                           else CACHE_FILENAME env)
      in case UserHomeDir env of
           None \<Rightarrow> ((''.crossbench-cache.json'', None), w)
         | Some homeDir \<Rightarrow>
             (let cacheDir = (if IsAbs env cacheDirName then cacheDirName
                              else Join env homeDir cacheDirName);
                  (ok, w1) = MkdirAll w cacheDir
              in if \<not> ok then ((''.crossbench-cache.json'', None), w1)
                 else ((Join env cacheDir cacheFileName, None), w1)))"

definition loadCache :: "env \<Rightarrow> world \<Rightarrow> (error + FunctionVersionCache) \<times> world" where
  "loadCache env w =
     (let ((cachePath, err), w1) = getCachePath env w
      in case err of
           Some e \<Rightarrow> (Inr Map.empty, w1)
         | None \<Rightarrow>
             (let (data, w2) = ReadFile w1 cachePath
              in case data of
                   NotExist \<Rightarrow> (Inr Map.empty, w2)
                 | ReadError msg \<Rightarrow>
                     (Inl (ErrorfW ''failed to read cache file: %w'' [] (LibError msg)), w2)
                 | InvalidJSON \<Rightarrow> (Inr Map.empty, w2)
                 | ValidJSON None \<Rightarrow> (Inr Map.empty, w2)
                 | ValidJSON (Some versions) \<Rightarrow> (Inr versions, w2)))"

definition saveCache :: "env \<Rightarrow> world \<Rightarrow> FunctionVersionCache \<Rightarrow> error option \<times> world" where
  "saveCache env w cache =
     (let ((cachePath, err), w1) = getCachePath env w
      in case err of
           Some e \<Rightarrow> (Some e, w1)
         | None \<Rightarrow>
             (case marshal_fails w1 cache of
                Some msg \<Rightarrow>
                  (Some (ErrorfW ''failed to marshal cache: %w'' [] (LibError msg)), w1)
              | None \<Rightarrow>
                  (let (werr, w2) = WriteFile w1 cachePath cache
                   in case werr of
                        Some e \<Rightarrow>
                          (Some (ErrorfW ''failed to write cache file: %w'' [] e), w2)
                      | None \<Rightarrow> (None, w2))))"

section \<open>Remote client\<close>

definition releases_url :: "env \<Rightarrow> string \<Rightarrow> string \<Rightarrow> string" where
  \<comment> \<open>the URL that fetchLatestReleaseVersion formats\<close>
  "releases_url env owner repo =
     getGitHubAPIURL env @ ''/repos/'' @ owner @ ''/'' @ repo @ ''/releases/latest''"

definition fetchLatestReleaseVersion ::
  "env \<Rightarrow> world \<Rightarrow> string \<Rightarrow> string \<Rightarrow> (error + string) \<times> world" where
  "fetchLatestReleaseVersion env w owner repo =
     (let url = releases_url env owner repo
      in case NewRequest_fails w url of
           Some msg \<Rightarrow> (Inl (ErrorfW ''failed to create request: %w'' [] (LibError msg)), w)
         | None \<Rightarrow>
             (let (resp, w1) = client_Do w url
              in case resp of
                   DoError msg \<Rightarrow>
                     (Inl (ErrorfW ''failed to fetch release: %w'' [] (LibError msg)), w1)
                 | Response status body release \<Rightarrow>
                     if status = 403 then
                       (if Contains body ''rate limit'' \<or> Contains body ''API rate limit''
                        then (Inl (RateLimitError (''GitHub API rate limit exceeded: '' @ body)), w1)
                        else (Inl (Errorf ''GitHub API returned status %d: %s'' [D status, S body]), w1))
                     else if status \<noteq> 200 then
                       (Inl (Errorf ''GitHub API returned status %d: %s'' [D status, S body]), w1)
                     else
                       (case release of
                          None \<Rightarrow>
                            (Inl (ErrorfW ''failed to decode response: %w'' []
                                    (LibError ''json'')), w1)
                        | Some rel \<Rightarrow>
                            if TagName rel = [] then
                              (Inl (Errorf ''no tag name found in release'' []), w1)
                            else (Inr (TagName rel), w1))))"

section \<open>Resolution\<close>

definition packageRef :: "env \<Rightarrow> string \<Rightarrow> string \<Rightarrow> string \<Rightarrow> string \<Rightarrow> string" where
  \<comment> \<open>the last lines of inferPackageFromFunctionName: registry selection on the
      function name, and the package reference\<close>
  "packageRef env name owner repo version =
     (let registry = getPackageRegistry env name
      in registry @ ''/'' @ owner @ ''/'' @ repo @ '':'' @ version)"

text \<open>
  \<open>inferPackage_mem\<close> is the body of \<open>inferPackageFromFunctionName\<close>. Beside the
  function's two results it returns the store that the local variable \<open>cache\<close> points
  to when the function returns (\<open>None\<close> when it returns before the cache is loaded).
  The clock is read once for \<open>getCachedVersion\<close> (its \<open>time.Since\<close>) and once for
  \<open>setCachedVersion\<close> (its \<open>time.Now\<close>).
\<close>

definition inferPackage_mem ::
  "env \<Rightarrow> world \<Rightarrow> string \<Rightarrow> bool
     \<Rightarrow> (error + string) \<times> FunctionVersionCache option \<times> world" where
  "inferPackage_mem env w name forceRefresh =
     (if length name = 0 then (Inl (Errorf ''function name cannot be empty'' []), None, w)
      else if Contains name ''/'' \<or> Contains name '':'' then (Inr name, None, w)
      else
        (case mapFunctionNameToGitHubRepo env name of
           (owner, repo, Some err) \<Rightarrow>
             (Inl (ErrorfW ''cannot map function name to GitHub repository: %w'' [] err),
              None, w)
         | (owner, repo, None) \<Rightarrow>
             (let cacheKey = owner @ ''/'' @ repo;
                  (loaded, w1) = loadCache env (record_event w Call_loadCache);
                  cache0 = (case loaded of Inl err \<Rightarrow> Map.empty | Inr c \<Rightarrow> c);
                  ((cachePath, perr), w2) = getCachePath env w1;
                  (now, w3) = time_Now (record_event w2 (Call_getCachedVersion cacheKey));
                  ((version, found), cache) = getCachedVersion env now cache0 cacheKey
              in if found \<and> \<not> forceRefresh then
                   (Inr (packageRef env name owner repo version), Some cache,
                    record_event w3 (Info_using_cached cacheKey version cachePath))
                 else
                   (let (fetched, w4) =
                          fetchLatestReleaseVersion env
                            (record_event w3 (Call_fetchLatestReleaseVersion owner repo))
                            owner repo
                    in case fetched of
                         Inl (RateLimitError m) \<Rightarrow>
                           (case cache cacheKey of
                              Some staleEntry \<Rightarrow>
                                (let version = Version staleEntry
                                 in (Inr (packageRef env name owner repo version), Some cache,
                                     record_event w4 (Warn_rate_limit cacheKey version cachePath)))
                            | None \<Rightarrow>
                                (Inl (ErrorfW
                                   ''cannot fetch latest version for %s/%s: %w (no cached version available)''
                                   [S owner, S repo] (RateLimitError m)),
                                 Some cache, w4))
                       | Inl err \<Rightarrow>
                           (Inl (ErrorfW ''cannot fetch latest version for %s/%s: %w''
                                   [S owner, S repo] err),
                            Some cache, w4)
                       | Inr version \<Rightarrow>
                           (let (now', w5) =
                                  time_Now (record_event w4 (Call_setCachedVersion cacheKey version));
                                cache' = setCachedVersion now' cache cacheKey version;
                                (serr, w6) = saveCache env (record_event w5 Call_saveCache) cache';
                                w7 = (case serr of
                                        Some e \<Rightarrow> record_event w6 (Warn_save_failed cachePath e)
                                      | None \<Rightarrow> w6)
                            in (Inr (packageRef env name owner repo version), Some cache', w7))))))"

definition inferPackageFromFunctionName ::
  "env \<Rightarrow> world \<Rightarrow> string \<Rightarrow> bool \<Rightarrow> (error + string) \<times> world" where
  "inferPackageFromFunctionName env w name forceRefresh =
     (case inferPackage_mem env w name forceRefresh of (res, mem, w') \<Rightarrow> (res, w'))"

section \<open>Extraction\<close>








section \<open>Notions used to state the properties\<close>

text \<open>
  The store that a resolution holds in memory once it has loaded the cache: what
  \<open>loadCache\<close> returns, or the empty store that \<open>inferPackageFromFunctionName\<close>
  puts in its place when \<open>loadCache\<close> returns an error.
\<close>

definition in_memory_store :: "env \<Rightarrow> world \<Rightarrow> FunctionVersionCache" where
  "in_memory_store env w =
     (case fst (loadCache env w) of Inl err \<Rightarrow> Map.empty | Inr c \<Rightarrow> c)"

definition path_ops :: "env \<Rightarrow> nat" where
  \<comment> \<open>the number of file-system operations of one call of getCachePath\<close>
  "path_ops env = (case UserHomeDir env of None \<Rightarrow> 0 | Some h \<Rightarrow> 1)"

definition store_of_file :: "file_state \<Rightarrow> error + FunctionVersionCache" where
  \<comment> \<open>what loadCache returns, by the state of the file at the cache path\<close>
  "store_of_file st =
     (case st of
        NotExist \<Rightarrow> Inr Map.empty
      | ReadError msg \<Rightarrow> Inl (ErrorfW ''failed to read cache file: %w'' [] (LibError msg))
      | InvalidJSON \<Rightarrow> Inr Map.empty
      | ValidJSON None \<Rightarrow> Inr Map.empty
      | ValidJSON (Some versions) \<Rightarrow> Inr versions)"

definition resolve_result ::
  "env \<Rightarrow> world \<Rightarrow> string \<Rightarrow> string \<Rightarrow> string \<Rightarrow> bool \<Rightarrow> error + string" where
  \<comment> \<open>the first result of inferPackageFromFunctionName for a name that is mapped to
      \<open>owner\<close> and \<open>repo\<close>, from the answers of the world the call starts in\<close>
  "resolve_result env w name owner repo forceRefresh =
     (let cacheKey = owner @ ''/'' @ repo;
          cache = in_memory_store env w;
          (version, found) = fst (getCachedVersion env (clock w (clock_reads w)) cache cacheKey)
      in if found \<and> \<not> forceRefresh then Inr (packageRef env name owner repo version)
         else
           (case fst (fetchLatestReleaseVersion env w owner repo) of
              Inl (RateLimitError m) \<Rightarrow>
                (case cache cacheKey of
                   Some staleEntry \<Rightarrow> Inr (packageRef env name owner repo (Version staleEntry))
                 | None \<Rightarrow>
                     Inl (ErrorfW
                       ''cannot fetch latest version for %s/%s: %w (no cached version available)''
                       [S owner, S repo] (RateLimitError m)))
            | Inl err \<Rightarrow>
                Inl (ErrorfW ''cannot fetch latest version for %s/%s: %w'' [S owner, S repo] err)
            | Inr version \<Rightarrow> Inr (packageRef env name owner repo version)))"


fun fetch_calls :: "event list \<Rightarrow> (string \<times> string) list" where
  \<comment> \<open>the remote fetches that a trace records, in order\<close>
  "fetch_calls [] = []"
| "fetch_calls (Call_fetchLatestReleaseVersion owner repo # evs) =
     (owner, repo) # fetch_calls evs"
| "fetch_calls (e # evs) = fetch_calls evs"




subsection \<open>Concrete inputs\<close>

definition default_env :: env where
  \<comment> \<open>no variable set, on a Unix system\<close>
  "default_env =
     \<lparr>CACHE_EXPIRATION = None, CACHE_DIR = [], CACHE_FILENAME = [],
      DEFAULT_GITHUB_OWNER = [], DEFAULT_PACKAGE_REGISTRY = [],
      UPBOUND_PACKAGE_REGISTRY = [], UPBOUND_FUNCTIONS = [], GITHUB_API_URL = [],
      UserHomeDir = Some ''/home/dev'',
      IsAbs = (\<lambda>p. HasPrefix p ''/''), Join = (\<lambda>a b. a @ ''/'' @ b)\<rparr>"

definition default_cache_path :: string where
  "default_cache_path = ''/home/dev/.crossbench/function-versions.json''"

definition foo_key :: string where
  "foo_key = ''crossplane-contrib/function-foo''"

definition released_world :: world where
  \<comment> \<open>no cache file; the remote answers every request with the release v1.0.0\<close>
  "released_world =
     \<lparr>files = (\<lambda>p. NotExist), trace = [], fs_ops = 0,
      mkdir_ok = (\<lambda>n p. True), write_fails = (\<lambda>n p. None), marshal_fails = (\<lambda>c. None),
      clock = (\<lambda>n. 1000 * Hour + int n), clock_reads = 0,
      NewRequest_fails = (\<lambda>u. None),
      http = (\<lambda>n u. Response 200 ''{}'' (Some \<lparr>TagName = ''v1.0.0'', ReleaseName = ''r''\<rparr>)),
      requests = 0\<rparr>"

definition cached_world :: "int \<Rightarrow> world" where
  \<comment> \<open>the cache file holds v0.9.2 for function-foo, fetched at \<open>t\<close>\<close>
  "cached_world t =
     released_world
       \<lparr>files := (\<lambda>p. if p = default_cache_path
                        then ValidJSON (Some [foo_key \<mapsto> \<lparr>Version = ''v0.9.2'', FetchedAt = t\<rparr>])
                        else NotExist)\<rparr>"

definition rate_limited :: "world \<Rightarrow> world" where
  \<comment> \<open>the remote answers every request with the rate-limit response\<close>
  "rate_limited w = w\<lparr>http := (\<lambda>n u. Response 403 ''API rate limit exceeded'' None)\<rparr>"

definition unavailable :: "world \<Rightarrow> world" where
  \<comment> \<open>the remote answers every request with status 503\<close>
  "unavailable w = w\<lparr>http := (\<lambda>n u. Response 503 ''unavailable'' None)\<rparr>"



section \<open>Library facts\<close>

lemma HasPrefix_iff: "HasPrefix s pre = (\<exists>rest. s = pre @ rest)"
  unfolding HasPrefix_def
  by (metis append_eq_conv_conj append_take_drop_id)

lemma Contains_char: "Contains s [c] = (c \<in> set s)"
  by (induction s) (auto simp: HasPrefix_def)


lemma fetch_calls_append: "fetch_calls (xs @ ys) = fetch_calls xs @ fetch_calls ys"
  by (induction xs rule: fetch_calls.induct) simp_all



section \<open>Effects of the operations on the world\<close>

lemma getCachePath_snd: "snd (getCachePath env w) = w\<lparr>fs_ops := fs_ops w + path_ops env\<rparr>"
  by (simp add: getCachePath_def MkdirAll_def Let_def path_ops_def split: option.splits)

lemma getCachePath_err: "snd (fst (getCachePath env w)) = None"
  by (simp add: getCachePath_def MkdirAll_def Let_def split: option.splits)

lemma getCachePath_fst_upd:
  "fst (getCachePath env (w\<lparr>trace := t\<rparr>)) = fst (getCachePath env w)"
  "fst (getCachePath env (w\<lparr>clock_reads := c\<rparr>)) = fst (getCachePath env w)"
  "fst (getCachePath env (w\<lparr>requests := r\<rparr>)) = fst (getCachePath env w)"
  by (simp_all add: getCachePath_def MkdirAll_def Let_def split: option.splits)

lemma loadCache_snd: "snd (loadCache env w) = w\<lparr>fs_ops := Suc (fs_ops w + path_ops env)\<rparr>"
proof -
  obtain p w1 where g: "getCachePath env w = ((p, None), w1)"
    using getCachePath_err [of env w] by (metis prod.collapse)
  have w1: "w1 = w\<lparr>fs_ops := fs_ops w + path_ops env\<rparr>"
    using getCachePath_snd [of env w] g by simp
  show ?thesis
    by (simp add: loadCache_def g ReadFile_def w1 split: file_state.splits option.splits)
qed

lemma loadCache_fst:
  "fst (loadCache env w) = store_of_file (files w (fst (fst (getCachePath env w))))"
proof -
  obtain p w1 where g: "getCachePath env w = ((p, None), w1)"
    using getCachePath_err [of env w] by (metis prod.collapse)
  have w1: "w1 = w\<lparr>fs_ops := fs_ops w + path_ops env\<rparr>"
    using getCachePath_snd [of env w] g by simp
  show ?thesis
    by (simp add: loadCache_def g ReadFile_def w1 store_of_file_def
        split: file_state.splits option.splits)
qed

lemma loadCache_fst_upd:
  "fst (loadCache env (w\<lparr>trace := t\<rparr>)) = fst (loadCache env w)"
  "fst (loadCache env (w\<lparr>clock_reads := c\<rparr>)) = fst (loadCache env w)"
  "fst (loadCache env (w\<lparr>requests := r\<rparr>)) = fst (loadCache env w)"
  by (simp_all add: loadCache_fst getCachePath_fst_upd)

lemma fetch_snd:
  "snd (fetchLatestReleaseVersion env w owner repo) =
     w\<lparr>requests := (if NewRequest_fails w (releases_url env owner repo) = None
                      then Suc (requests w) else requests w)\<rparr>"
  by (simp add: fetchLatestReleaseVersion_def client_Do_def Let_def
      split: option.splits http_outcome.splits)

lemma fetch_fst_upd:
  "fst (fetchLatestReleaseVersion env (w\<lparr>trace := t\<rparr>) owner repo) =
     fst (fetchLatestReleaseVersion env w owner repo)"
  "fst (fetchLatestReleaseVersion env (w\<lparr>clock_reads := c\<rparr>) owner repo) =
     fst (fetchLatestReleaseVersion env w owner repo)"
  "fst (fetchLatestReleaseVersion env (w\<lparr>fs_ops := k\<rparr>) owner repo) =
     fst (fetchLatestReleaseVersion env w owner repo)"
  "fst (fetchLatestReleaseVersion env (w\<lparr>files := f\<rparr>) owner repo) =
     fst (fetchLatestReleaseVersion env w owner repo)"
  by (simp_all add: fetchLatestReleaseVersion_def client_Do_def Let_def
      split: option.splits http_outcome.splits)

lemma fetch_error_kind:
  assumes "fst (fetchLatestReleaseVersion env w owner repo) = Inl err"
  shows "(\<exists>m. err = RateLimitError m) \<or> As_RateLimitError err = None"
  using assms
  by (auto simp: fetchLatestReleaseVersion_def client_Do_def Let_def
      split: option.splits http_outcome.splits if_splits)

lemma saveCache_frame:
  "trace (snd (saveCache env w cache)) = trace w"
  "requests (snd (saveCache env w cache)) = requests w"
  "clock_reads (snd (saveCache env w cache)) = clock_reads w"
proof -
  obtain p w1 where g: "getCachePath env w = ((p, None), w1)"
    using getCachePath_err [of env w] by (metis prod.collapse)
  have w1: "w1 = w\<lparr>fs_ops := fs_ops w + path_ops env\<rparr>"
    using getCachePath_snd [of env w] g by simp
  show "trace (snd (saveCache env w cache)) = trace w"
    by (simp add: saveCache_def g WriteFile_def w1 split: option.splits prod.splits)
  show "requests (snd (saveCache env w cache)) = requests w"
    by (simp add: saveCache_def g WriteFile_def w1 split: option.splits prod.splits)
  show "clock_reads (snd (saveCache env w cache)) = clock_reads w"
    by (simp add: saveCache_def g WriteFile_def w1 split: option.splits prod.splits)
qed

lemma getCachedVersion_snd: "snd (getCachedVersion env now cache key) = cache"
  by (simp add: getCachedVersion_def Let_def split: option.splits)

lemma map_err: "snd (snd (mapFunctionNameToGitHubRepo env name)) = None"
  by (simp add: mapFunctionNameToGitHubRepo_def Let_def)

section \<open>The resolution, case by case\<close>

lemma infer_fst: "fst (inferPackageFromFunctionName env w name force) = fst (inferPackage_mem env w name force)"
  by (simp add: inferPackageFromFunctionName_def split: prod.splits)

lemma infer_snd: "snd (inferPackageFromFunctionName env w name force) = snd (snd (inferPackage_mem env w name force))"
  by (simp add: inferPackageFromFunctionName_def split: prod.splits)

lemma infer_passthrough:
  assumes "Contains name ''/'' \<or> Contains name '':''"
  shows "inferPackage_mem env w name force = (Inr name, None, w)"
proof -
  have "name \<noteq> []" using assms by auto
  then show ?thesis using assms by (simp add: inferPackage_mem_def)
qed

lemma infer_result:
  assumes "name \<noteq> []" "\<not> Contains name ''/''" "\<not> Contains name '':''"
    and m: "mapFunctionNameToGitHubRepo env name = (owner, repo, merr)"
  shows "fst (inferPackage_mem env w name force) = resolve_result env w name owner repo force"
proof -
  have merr: "merr = None" using map_err [of env name] m by simp
  show ?thesis
    using assms(1-3)
    by (simp add: inferPackage_mem_def m merr Let_def case_prod_beta resolve_result_def
        in_memory_store_def record_event_def time_Now_def loadCache_snd getCachePath_snd
        loadCache_fst_upd fetch_fst_upd getCachedVersion_snd
        split: sum.splits error.splits option.splits)
qed

lemma infer_failed_fetch_keeps:
  assumes "name \<noteq> []" "\<not> Contains name ''/''" "\<not> Contains name '':''"
    and m: "mapFunctionNameToGitHubRepo env name = (owner, repo, merr)"
    and f: "fst (fetchLatestReleaseVersion env w owner repo) = Inl e"
  shows "fst (snd (inferPackage_mem env w name force)) = Some (in_memory_store env w)"
    and "files (snd (snd (inferPackage_mem env w name force))) = files w"
proof -
  have merr: "merr = None" using map_err [of env name] m by simp
  show "fst (snd (inferPackage_mem env w name force)) = Some (in_memory_store env w)"
    using assms(1-3) f
    by (simp add: inferPackage_mem_def m merr Let_def case_prod_beta
        in_memory_store_def record_event_def time_Now_def loadCache_snd getCachePath_snd
        loadCache_fst_upd fetch_fst_upd getCachedVersion_snd
        split: sum.splits error.splits option.splits)
  show "files (snd (snd (inferPackage_mem env w name force))) = files w"
    using assms(1-3) f
    by (simp add: inferPackage_mem_def m merr Let_def case_prod_beta
        in_memory_store_def record_event_def time_Now_def loadCache_snd getCachePath_snd
        loadCache_fst_upd fetch_fst_upd fetch_snd getCachedVersion_snd
        split: sum.splits error.splits option.splits)
qed

lemma infer_fetch_calls:
  assumes "name \<noteq> []" "\<not> Contains name ''/''" "\<not> Contains name '':''"
    and m: "mapFunctionNameToGitHubRepo env name = (owner, repo, merr)"
  shows "fetch_calls (trace (snd (snd (inferPackage_mem env w name force)))) =
           fetch_calls (trace w) @
             (if snd (fst (getCachedVersion env (clock w (clock_reads w)) (in_memory_store env w)
                            (owner @ ''/'' @ repo))) \<and> \<not> force
              then [] else [(owner, repo)])"
proof -
  have merr: "merr = None" using map_err [of env name] m by simp
  show ?thesis
    using assms(1-3)
    by (simp add: inferPackage_mem_def m merr Let_def case_prod_beta in_memory_store_def
        record_event_def time_Now_def loadCache_snd getCachePath_snd loadCache_fst_upd
        fetch_snd saveCache_frame fetch_calls_append getCachedVersion_snd
        split: sum.splits error.splits option.splits)
qed


lemma infer_force_only_on_hit:
  assumes m: "mapFunctionNameToGitHubRepo env name = (owner, repo, merr)"
    and nf: "\<not> snd (fst (getCachedVersion env (clock w (clock_reads w)) (in_memory_store env w)
                        (owner @ ''/'' @ repo)))"
  shows "inferPackage_mem env w name True = inferPackage_mem env w name False"
proof (cases "name = [] \<or> Contains name ''/'' \<or> Contains name '':''")
  case True
  then show ?thesis by (auto simp: inferPackage_mem_def)
next
  case False
  have merr: "merr = None" using map_err [of env name] m by simp
  have nf': "\<not> snd (fst (getCachedVersion env
      (fst (time_Now (record_event (snd (getCachePath env (snd (loadCache env (record_event w Call_loadCache)))))
                    (Call_getCachedVersion (owner @ ''/'' @ repo)))))
      (case fst (loadCache env (record_event w Call_loadCache)) of Inl err \<Rightarrow> Map.empty | Inr c \<Rightarrow> c)
      (owner @ ''/'' @ repo)))"
    using nf
    by (simp add: in_memory_store_def record_event_def time_Now_def loadCache_snd
        getCachePath_snd loadCache_fst_upd)
  show ?thesis
    using False nf'
    by (simp add: inferPackage_mem_def m merr Let_def case_prod_beta
        cong: sum.case_cong error.case_cong option.case_cong)
qed

section \<open>Facts about the concrete inputs\<close>

lemma foo_plain:
  "''function-foo'' \<noteq> [] \<and> \<not> Contains ''function-foo'' ''/'' \<and> \<not> Contains ''function-foo'' '':''"
  by (simp add: Contains_char)

lemma foo_mapped:
  "mapFunctionNameToGitHubRepo default_env ''function-foo'' =
     (''crossplane-contrib'', ''function-foo'', None)"
  by (simp add: mapFunctionNameToGitHubRepo_def getDefaultGitHubOwner_def default_env_def
      HasPrefix_def Let_def)

lemma default_path:
  "mkdir_ok w (fs_ops w) ''/home/dev/.crossbench'' \<Longrightarrow>
   fst (getCachePath default_env w) = (default_cache_path, None)"
  by (simp add: getCachePath_def default_env_def default_cache_path_def MkdirAll_def
      HasPrefix_def Let_def split: prod.splits)

lemma foo_registry: "getPackageRegistry default_env ''function-foo'' = ''xpkg.crossplane.io''"
  by (simp add: getPackageRegistry_def getUpboundFunctionNames_def getDefaultPackageRegistry_def
      default_env_def TrimSpace_def white_space_def HasPrefix_def)

lemma cached_store:
  "in_memory_store default_env (cached_world t) = [foo_key \<mapsto> \<lparr>Version = ''v0.9.2'', FetchedAt = t\<rparr>]"
  "in_memory_store default_env (rate_limited (cached_world t)) =
     [foo_key \<mapsto> \<lparr>Version = ''v0.9.2'', FetchedAt = t\<rparr>]"
  by (simp_all add: in_memory_store_def loadCache_fst default_path store_of_file_def
      cached_world_def released_world_def rate_limited_def)

lemma rate_limited_fetch:
  "fst (fetchLatestReleaseVersion default_env (rate_limited w) owner repo) =
     (case NewRequest_fails w (releases_url default_env owner repo) of
        None \<Rightarrow> Inl (RateLimitError ''GitHub API rate limit exceeded: API rate limit exceeded'')
      | Some msg \<Rightarrow> Inl (ErrorfW ''failed to create request: %w'' [] (LibError msg)))"
  by (simp add: fetchLatestReleaseVersion_def rate_limited_def client_Do_def HasPrefix_def
      Let_def split: option.splits)

lemma rate_limited_cached_fetch:
  "fst (fetchLatestReleaseVersion default_env (rate_limited (cached_world t)) owner repo) =
     Inl (RateLimitError ''GitHub API rate limit exceeded: API rate limit exceeded'')"
  by (simp add: rate_limited_fetch cached_world_def released_world_def)

section \<open>Properties of the version cache\<close>

text \<open>
  C8. For every store, key and version, and every configured time to live greater than
  zero: \<open>setCachedVersion\<close> followed at once (at the same reading of the clock) by
  \<open>getCachedVersion\<close> on the same key returns the version and \<open>found = true\<close>.
\<close>

theorem set_then_get_hits:
  assumes "0 < getCacheExpiration env"
  shows "getCachedVersion env now (setCachedVersion now cache cacheKey version) cacheKey
           = ((version, True), setCachedVersion now cache cacheKey version)"
  using assms
  by (simp add: getCachedVersion_def setCachedVersion_def time_Sub_def maxDuration_def
      minDuration_def)

theorem set_then_get_hits_witness:
  "0 < getCacheExpiration default_env \<and>
   getCachedVersion default_env 5 (setCachedVersion 5 Map.empty foo_key ''v1.0.0'') foo_key
     = ((''v1.0.0'', True), setCachedVersion 5 Map.empty foo_key ''v1.0.0'')"
proof -
  have h: "0 < getCacheExpiration default_env"
    by (simp add: getCacheExpiration_def default_env_def Hour_def)
  show ?thesis
    using h set_then_get_hits [OF h, of 5 Map.empty foo_key "''v1.0.0''"] by simp
qed

text \<open>
  C9. For every store and key whose entry is older than the configured time to live
  (the age is \<open>time.Since\<close> of \<open>FetchedAt\<close>), \<open>getCachedVersion\<close> returns
  \<open>found = false\<close> and leaves the store as it was: the expired entry is still under
  its key, unchanged.
\<close>

theorem expired_entry_stays:
  assumes "cache cacheKey = Some entry"
    and "time_Sub now (FetchedAt entry) > getCacheExpiration env"
  shows "getCachedVersion env now cache cacheKey = (([], False), cache) \<and>
         snd (getCachedVersion env now cache cacheKey) cacheKey = Some entry"
  using assms by (simp add: getCachedVersion_def)

theorem expired_entry_stays_witness:
  "[foo_key \<mapsto> \<lparr>Version = ''v0.9.2'', FetchedAt = 0\<rparr>] foo_key
      = Some \<lparr>Version = ''v0.9.2'', FetchedAt = 0\<rparr> \<and>
   time_Sub (25 * Hour) (FetchedAt \<lparr>Version = ''v0.9.2'', FetchedAt = 0\<rparr>)
      > getCacheExpiration default_env \<and>
   getCachedVersion default_env (25 * Hour) [foo_key \<mapsto> \<lparr>Version = ''v0.9.2'', FetchedAt = 0\<rparr>] foo_key
      = (([], False), [foo_key \<mapsto> \<lparr>Version = ''v0.9.2'', FetchedAt = 0\<rparr>])"
proof -
  let ?e = "\<lparr>Version = ''v0.9.2'', FetchedAt = 0\<rparr>"
  have h1: "[foo_key \<mapsto> ?e] foo_key = Some ?e" by simp
  have h2: "time_Sub (25 * Hour) (FetchedAt ?e) > getCacheExpiration default_env"
    by (simp add: time_Sub_def getCacheExpiration_def default_env_def Hour_def
        maxDuration_def minDuration_def)
  show ?thesis
    using h1 h2
      expired_entry_stays [where cache = "[foo_key \<mapsto> ?e]" and cacheKey = foo_key
        and entry = ?e and now = "25 * Hour" and env = default_env]
    by simp
qed

section \<open>Properties of the name mapping\<close>

text \<open>
  C6. \<open>mapFunctionNameToGitHubRepo\<close> never returns an error; the owner is the default
  owner; a name \<open>crossplane-contrib-function-<base>\<close> is mapped to the repository
  \<open>function-<base>\<close>, a name that starts with \<open>function-\<close> is kept, and any other
  name gets \<open>function-\<close> in front.
\<close>

theorem name_mapping:
  "\<exists>repo. mapFunctionNameToGitHubRepo env name = (getDefaultGitHubOwner env, repo, None) \<and>
     (\<forall>base. name = ''crossplane-contrib-function-'' @ base \<longrightarrow> repo = ''function-'' @ base) \<and>
     (\<forall>rest. name = ''function-'' @ rest \<longrightarrow> repo = name) \<and>
     ((\<nexists>base. name = ''crossplane-contrib-function-'' @ base) \<and>
      (\<nexists>rest. name = ''function-'' @ rest) \<longrightarrow> repo = ''function-'' @ name)"
proof (cases "HasPrefix name ''crossplane-contrib-function-''")
  case True
  then obtain base where b: "name = ''crossplane-contrib-function-'' @ base"
    by (auto simp: HasPrefix_iff)
  have nf: "\<not> HasPrefix name ''function-''" using b by (simp add: HasPrefix_def)
  have "mapFunctionNameToGitHubRepo env name = (getDefaultGitHubOwner env, ''function-'' @ base, None)"
    using True b by (simp add: mapFunctionNameToGitHubRepo_def TrimPrefix_def Let_def)
  then show ?thesis using b nf by (auto simp: HasPrefix_iff)
next
  case False
  then show ?thesis
    by (auto simp: mapFunctionNameToGitHubRepo_def Let_def HasPrefix_iff)
qed

theorem name_mapping_witness:
  "mapFunctionNameToGitHubRepo default_env ''crossplane-contrib-function-foo''
     = (''crossplane-contrib'', ''function-foo'', None) \<and>
   mapFunctionNameToGitHubRepo default_env ''function-bar''
     = (''crossplane-contrib'', ''function-bar'', None) \<and>
   mapFunctionNameToGitHubRepo default_env ''baz''
     = (''crossplane-contrib'', ''function-baz'', None)"
proof -
  have o: "getDefaultGitHubOwner default_env = ''crossplane-contrib''"
    by (simp add: getDefaultGitHubOwner_def default_env_def)
  have a: "mapFunctionNameToGitHubRepo default_env ''crossplane-contrib-function-foo''
     = (''crossplane-contrib'', ''function-foo'', None)"
    using name_mapping [of default_env "''crossplane-contrib-function-foo''"] o by auto
  have b: "mapFunctionNameToGitHubRepo default_env ''function-bar''
     = (''crossplane-contrib'', ''function-bar'', None)"
    using name_mapping [of default_env "''function-bar''"] o by auto
  have c: "mapFunctionNameToGitHubRepo default_env ''baz''
     = (''crossplane-contrib'', ''function-baz'', None)"
    using name_mapping [of default_env "''baz''"] o by auto
  show ?thesis using a b c by simp
qed

section \<open>Resolution under a rate limit\<close>

text \<open>
  C1. For a function name that is resolved through the cache and the remote (not empty,
  no \<open>/\<close> and no \<open>:\<close>), when the remote answers the fetch with a rate-limit error
  and the store loaded into memory has an entry for the name's cache key, fresh or
  stale: the resolution succeeds with the package reference that carries that entry's
  version, the store in memory is the loaded one when the function returns, and no file
  has changed, the cache file and its \<open>fetched_at\<close> included.
\<close>

theorem rate_limit_falls_back_to_entry:
  assumes "name \<noteq> []" "\<not> Contains name ''/''" "\<not> Contains name '':''"
    and "mapFunctionNameToGitHubRepo env name = (owner, repo, merr)"
    and "fst (fetchLatestReleaseVersion env w owner repo) = Inl (RateLimitError msg)"
    and "in_memory_store env w (owner @ ''/'' @ repo) = Some entry"
  shows "fst (inferPackageFromFunctionName env w name forceRefresh) =
           Inr (getPackageRegistry env name @ ''/'' @ owner @ ''/'' @ repo @ '':'' @ Version entry) \<and>
         fst (snd (inferPackage_mem env w name forceRefresh)) = Some (in_memory_store env w) \<and>
         files (snd (inferPackageFromFunctionName env w name forceRefresh)) = files w"
proof -
  have "resolve_result env w name owner repo forceRefresh =
          Inr (getPackageRegistry env name @ ''/'' @ owner @ ''/'' @ repo @ '':'' @ Version entry)"
    using assms(5,6)
    by (simp add: resolve_result_def getCachedVersion_def packageRef_def Let_def)
  then show ?thesis
    using infer_result [OF assms(1-4)] infer_failed_fetch_keeps [OF assms(1-5)]
    by (simp add: infer_fst infer_snd)
qed

theorem rate_limit_falls_back_to_entry_witness:
  "in_memory_store default_env (rate_limited (cached_world 0)) foo_key =
     Some \<lparr>Version = ''v0.9.2'', FetchedAt = 0\<rparr> \<and>
   fst (inferPackageFromFunctionName default_env (rate_limited (cached_world 0)) ''function-foo'' False) =
     Inr ''xpkg.crossplane.io/crossplane-contrib/function-foo:v0.9.2'' \<and>
   fst (snd (inferPackage_mem default_env (rate_limited (cached_world 0)) ''function-foo'' False)) =
     Some [foo_key \<mapsto> \<lparr>Version = ''v0.9.2'', FetchedAt = 0\<rparr>] \<and>
   files (snd (inferPackageFromFunctionName default_env (rate_limited (cached_world 0)) ''function-foo'' False)) =
     files (rate_limited (cached_world 0))"
proof -
  let ?w = "rate_limited (cached_world 0)"
  let ?e = "\<lparr>Version = ''v0.9.2'', FetchedAt = 0\<rparr>"
  have s: "in_memory_store default_env ?w (''crossplane-contrib'' @ ''/'' @ ''function-foo'') = Some ?e"
    by (simp add: cached_store foo_key_def)
  show ?thesis
    using rate_limit_falls_back_to_entry [where name = "''function-foo''" and env = default_env
        and owner = "''crossplane-contrib''" and repo = "''function-foo''" and merr = None
        and w = ?w and entry = ?e and forceRefresh = False
        and msg = "''GitHub API rate limit exceeded: API rate limit exceeded''"]
      foo_plain foo_mapped rate_limited_cached_fetch [of 0] s
    by (simp add: foo_registry cached_store foo_key_def)
qed

lemma unavailable_fetch:
  "fst (fetchLatestReleaseVersion default_env (unavailable released_world) owner repo) =
     Inl (Errorf ''GitHub API returned status %d: %s'' [D 503, S ''unavailable''])"
  by (simp add: fetchLatestReleaseVersion_def unavailable_def released_world_def client_Do_def
      Let_def)

lemma empty_store:
  "in_memory_store default_env released_world = Map.empty"
  "in_memory_store default_env (rate_limited released_world) = Map.empty"
  "in_memory_store default_env (unavailable released_world) = Map.empty"
  by (simp_all add: in_memory_store_def loadCache_fst store_of_file_def released_world_def
      rate_limited_def unavailable_def)

text \<open>
  C3. For a function name that is resolved through the cache and the remote, when the
  store loaded into memory has no entry for the name's cache key: if the remote answers
  the fetch with a rate-limit error, the resolution fails, and the error it returns wraps
  the \<open>RateLimitError\<close> (\<open>errors.Unwrap\<close> gives it, \<open>errors.As\<close> finds it); if
  the fetch fails with any other error, the resolution fails with an error in whose
  chain \<open>errors.As\<close> finds no \<open>RateLimitError\<close>. So the two kinds can be told
  apart.
\<close>

theorem rate_limit_without_entry_fails:
  assumes "name \<noteq> []" "\<not> Contains name ''/''" "\<not> Contains name '':''"
    and "mapFunctionNameToGitHubRepo env name = (owner, repo, merr)"
    and "in_memory_store env w (owner @ ''/'' @ repo) = None"
  shows "(fst (fetchLatestReleaseVersion env w owner repo) = Inl (RateLimitError msg) \<longrightarrow>
           (\<exists>e. fst (inferPackageFromFunctionName env w name forceRefresh) = Inl e \<and>
                Unwrap e = Some (RateLimitError msg) \<and> As_RateLimitError e = Some msg)) \<and>
         (fst (fetchLatestReleaseVersion env w owner repo) = Inl err \<and>
          (\<forall>m. err \<noteq> RateLimitError m) \<longrightarrow>
           (\<exists>e. fst (inferPackageFromFunctionName env w name forceRefresh) = Inl e \<and>
                Unwrap e = Some err \<and> As_RateLimitError e = None))"
proof -
  have r: "fst (inferPackageFromFunctionName env w name forceRefresh) =
             resolve_result env w name owner repo forceRefresh"
    using infer_result [OF assms(1-4)] by (simp add: infer_fst)
  have a: "fst (fetchLatestReleaseVersion env w owner repo) = Inl (RateLimitError msg) \<Longrightarrow>
           resolve_result env w name owner repo forceRefresh =
             Inl (ErrorfW
               ''cannot fetch latest version for %s/%s: %w (no cached version available)''
               [S owner, S repo] (RateLimitError msg))"
    using assms(5) by (simp add: resolve_result_def getCachedVersion_def Let_def)
  have b: "fst (fetchLatestReleaseVersion env w owner repo) = Inl err \<Longrightarrow>
           \<forall>m. err \<noteq> RateLimitError m \<Longrightarrow>
           resolve_result env w name owner repo forceRefresh =
             Inl (ErrorfW ''cannot fetch latest version for %s/%s: %w'' [S owner, S repo] err) \<and>
           As_RateLimitError err = None"
    using assms(5) fetch_error_kind [of env w owner repo err]
    by (cases err) (simp_all add: resolve_result_def getCachedVersion_def Let_def)
  show ?thesis using r a b by auto
qed

theorem rate_limit_without_entry_fails_witness:
  "in_memory_store default_env (rate_limited released_world) foo_key = None \<and>
   fst (inferPackageFromFunctionName default_env (rate_limited released_world) ''function-foo'' False) =
     Inl (ErrorfW ''cannot fetch latest version for %s/%s: %w (no cached version available)''
            [S ''crossplane-contrib'', S ''function-foo'']
            (RateLimitError ''GitHub API rate limit exceeded: API rate limit exceeded'')) \<and>
   fst (inferPackageFromFunctionName default_env (unavailable released_world) ''function-foo'' False) =
     Inl (ErrorfW ''cannot fetch latest version for %s/%s: %w''
            [S ''crossplane-contrib'', S ''function-foo'']
            (Errorf ''GitHub API returned status %d: %s'' [D 503, S ''unavailable'']))"
proof -
  have f: "fst (fetchLatestReleaseVersion default_env (rate_limited released_world)
                  ''crossplane-contrib'' ''function-foo'') =
             Inl (RateLimitError ''GitHub API rate limit exceeded: API rate limit exceeded'')"
    by (simp add: rate_limited_fetch released_world_def)
  have a: "\<exists>e. fst (inferPackageFromFunctionName default_env (rate_limited released_world) ''function-foo'' False) = Inl e \<and>
             Unwrap e = Some (RateLimitError ''GitHub API rate limit exceeded: API rate limit exceeded'')"
    using rate_limit_without_entry_fails [where name = "''function-foo''" and env = default_env
        and owner = "''crossplane-contrib''" and repo = "''function-foo''" and merr = None
        and w = "rate_limited released_world" and forceRefresh = False
        and msg = "''GitHub API rate limit exceeded: API rate limit exceeded''"]
      foo_plain foo_mapped f empty_store(2)
    by (auto simp: foo_key_def)
  have b: "\<exists>e. fst (inferPackageFromFunctionName default_env (unavailable released_world) ''function-foo'' False) = Inl e \<and>
             Unwrap e = Some (Errorf ''GitHub API returned status %d: %s'' [D 503, S ''unavailable''])"
    using rate_limit_without_entry_fails [where name = "''function-foo''" and env = default_env
        and owner = "''crossplane-contrib''" and repo = "''function-foo''" and merr = None
        and w = "unavailable released_world" and forceRefresh = False
        and err = "Errorf ''GitHub API returned status %d: %s'' [D 503, S ''unavailable'']"]
      foo_plain foo_mapped unavailable_fetch empty_store(3)
    by (auto simp: foo_key_def)
  have c: "fst (inferPackageFromFunctionName default_env (rate_limited released_world) ''function-foo'' False) =
     Inl (ErrorfW ''cannot fetch latest version for %s/%s: %w (no cached version available)''
            [S ''crossplane-contrib'', S ''function-foo'']
            (RateLimitError ''GitHub API rate limit exceeded: API rate limit exceeded''))"
    using a f infer_result [of "''function-foo''" default_env "''crossplane-contrib''" "''function-foo''" None
        "rate_limited released_world" False] foo_plain foo_mapped
    by (simp add: infer_fst resolve_result_def empty_store getCachedVersion_def Let_def)
  have d: "fst (inferPackageFromFunctionName default_env (unavailable released_world) ''function-foo'' False) =
     Inl (ErrorfW ''cannot fetch latest version for %s/%s: %w''
            [S ''crossplane-contrib'', S ''function-foo'']
            (Errorf ''GitHub API returned status %d: %s'' [D 503, S ''unavailable'']))"
    using b unavailable_fetch infer_result [of "''function-foo''" default_env "''crossplane-contrib''" "''function-foo''" None
        "unavailable released_world" False] foo_plain foo_mapped
    by (simp add: infer_fst resolve_result_def empty_store getCachedVersion_def Let_def)
  show ?thesis using c d by (simp add: empty_store)
qed

section \<open>Pass-through\<close>

text \<open>
  C5. For every function identifier that contains a \<open>/\<close> or a \<open>:\<close>, the resolution
  returns the identifier itself and no error, and the world is as it was: no file-system
  operation, no reading of the clock, no request, nothing added to the trace; so the
  cache has not been loaded, looked up or written and nothing has been fetched. The
  function returns before it has a store in memory.
\<close>

theorem full_reference_passes_through:
  assumes "CHR ''/'' \<in> set name \<or> CHR '':'' \<in> set name"
  shows "inferPackageFromFunctionName env w name forceRefresh = (Inr name, w) \<and>
         inferPackage_mem env w name forceRefresh = (Inr name, None, w)"
proof -
  have "Contains name ''/'' \<or> Contains name '':''"
    using assms by (simp add: Contains_char)
  from infer_passthrough [OF this] show ?thesis
    by (simp add: inferPackageFromFunctionName_def)
qed

theorem full_reference_passes_through_witness:
  "(CHR ''/'' \<in> set ''xpkg.upbound.io/acme/function-x:v1.2.3'' \<or>
    CHR '':'' \<in> set ''xpkg.upbound.io/acme/function-x:v1.2.3'') \<and>
   inferPackageFromFunctionName default_env (rate_limited released_world)
     ''xpkg.upbound.io/acme/function-x:v1.2.3'' True =
     (Inr ''xpkg.upbound.io/acme/function-x:v1.2.3'', rate_limited released_world)"
proof -
  have h: "CHR ''/'' \<in> set ''xpkg.upbound.io/acme/function-x:v1.2.3'' \<or>
           CHR '':'' \<in> set ''xpkg.upbound.io/acme/function-x:v1.2.3''"
    by simp
  show ?thesis
    using h full_reference_passes_through [OF h, of default_env "rate_limited released_world" True]
    by simp
qed

lemma infer_requests:
  assumes "name \<noteq> []" "\<not> Contains name ''/''" "\<not> Contains name '':''"
    and m: "mapFunctionNameToGitHubRepo env name = (owner, repo, merr)"
  shows "requests (snd (snd (inferPackage_mem env w name True))) =
           (if NewRequest_fails w (releases_url env owner repo) = None
            then Suc (requests w) else requests w)"
proof -
  have merr: "merr = None" using map_err [of env name] m by simp
  show ?thesis
    using assms(1-3)
    by (simp add: inferPackage_mem_def m merr Let_def case_prod_beta
        record_event_def time_Now_def loadCache_snd getCachePath_snd
        fetch_snd saveCache_frame
        split: sum.splits error.splits option.splits)
qed

lemma cached_clock:
  "clock (cached_world t) (clock_reads (cached_world t)) = 1000 * Hour"
  "clock (rate_limited (cached_world t)) (clock_reads (rate_limited (cached_world t))) = 1000 * Hour"
  by (simp_all add: cached_world_def released_world_def rate_limited_def)

lemma default_expiration: "getCacheExpiration default_env = 24 * Hour"
  by (simp add: getCacheExpiration_def default_env_def)

lemma fresh_hit:
  "fst (getCachedVersion default_env
          (clock (cached_world (1000 * Hour - 1)) (clock_reads (cached_world (1000 * Hour - 1))))
          (in_memory_store default_env (cached_world (1000 * Hour - 1))) foo_key) =
     (''v0.9.2'', True)"
  by (simp add: cached_store cached_clock getCachedVersion_def default_expiration
      time_Sub_def Hour_def maxDuration_def minDuration_def)

section \<open>Forced refresh\<close>

text \<open>
  C7. For a function name that is resolved through the cache and the remote, a
  resolution with \<open>forceRefresh = true\<close> calls the remote fetch exactly once, whatever
  the cache holds, a fresh entry included; the request is sent unless it cannot be
  built. A rate-limited fetch still falls back to the entry in the store. When the
  cache has no fresh entry for the key, \<open>forceRefresh\<close> changes nothing: it only
  disables the return on a cache hit.
\<close>

theorem force_refresh_always_fetches:
  assumes "name \<noteq> []" "\<not> Contains name ''/''" "\<not> Contains name '':''"
    and "mapFunctionNameToGitHubRepo env name = (owner, repo, merr)"
  shows "fetch_calls (trace (snd (inferPackageFromFunctionName env w name True))) =
           fetch_calls (trace w) @ [(owner, repo)] \<and>
         requests (snd (inferPackageFromFunctionName env w name True)) =
           (if NewRequest_fails w (releases_url env owner repo) = None
            then Suc (requests w) else requests w) \<and>
         (fst (fetchLatestReleaseVersion env w owner repo) = Inl (RateLimitError msg) \<and>
          in_memory_store env w (owner @ ''/'' @ repo) = Some entry \<longrightarrow>
            fst (inferPackageFromFunctionName env w name True) =
              Inr (getPackageRegistry env name @ ''/'' @ owner @ ''/'' @ repo @ '':'' @ Version entry)) \<and>
         (\<not> snd (fst (getCachedVersion env (clock w (clock_reads w)) (in_memory_store env w)
                       (owner @ ''/'' @ repo))) \<longrightarrow>
            inferPackageFromFunctionName env w name True =
              inferPackageFromFunctionName env w name False)"
proof -
  have a: "fetch_calls (trace (snd (inferPackageFromFunctionName env w name True))) =
           fetch_calls (trace w) @ [(owner, repo)]"
    using infer_fetch_calls [OF assms, of w True] by (simp add: infer_snd)
  have b: "requests (snd (inferPackageFromFunctionName env w name True)) =
           (if NewRequest_fails w (releases_url env owner repo) = None
            then Suc (requests w) else requests w)"
    using infer_requests [OF assms, of w] by (simp add: infer_snd)
  have c: "fst (fetchLatestReleaseVersion env w owner repo) = Inl (RateLimitError msg) \<Longrightarrow>
          in_memory_store env w (owner @ ''/'' @ repo) = Some entry \<Longrightarrow>
            fst (inferPackageFromFunctionName env w name True) =
              Inr (getPackageRegistry env name @ ''/'' @ owner @ ''/'' @ repo @ '':'' @ Version entry)"
    using infer_result [OF assms, of w True]
    by (simp add: infer_fst resolve_result_def packageRef_def Let_def case_prod_beta)
  have d: "\<not> snd (fst (getCachedVersion env (clock w (clock_reads w)) (in_memory_store env w)
                       (owner @ ''/'' @ repo))) \<Longrightarrow>
            inferPackageFromFunctionName env w name True =
              inferPackageFromFunctionName env w name False"
    using infer_force_only_on_hit [OF assms(4), of w]
    by (simp add: inferPackageFromFunctionName_def)
  show ?thesis using a b c d by blast
qed

theorem force_refresh_always_fetches_witness:
  "fst (getCachedVersion default_env
          (clock (cached_world (1000 * Hour - 1)) (clock_reads (cached_world (1000 * Hour - 1))))
          (in_memory_store default_env (cached_world (1000 * Hour - 1))) foo_key) = (''v0.9.2'', True) \<and>
   fetch_calls (trace (snd (inferPackageFromFunctionName default_env
          (cached_world (1000 * Hour - 1)) ''function-foo'' True))) =
     [(''crossplane-contrib'', ''function-foo'')] \<and>
   requests (snd (inferPackageFromFunctionName default_env
          (cached_world (1000 * Hour - 1)) ''function-foo'' True)) = 1 \<and>
   fst (inferPackageFromFunctionName default_env
          (rate_limited (cached_world (1000 * Hour - 1))) ''function-foo'' True) =
     Inr ''xpkg.crossplane.io/crossplane-contrib/function-foo:v0.9.2'' \<and>
   inferPackageFromFunctionName default_env released_world ''function-foo'' True =
     inferPackageFromFunctionName default_env released_world ''function-foo'' False"
proof -
  let ?w = "cached_world (1000 * Hour - 1)"
  let ?e = "\<lparr>Version = ''v0.9.2'', FetchedAt = 1000 * Hour - 1\<rparr>"
  have t0: "trace ?w = []" "requests ?w = 0"
      "NewRequest_fails ?w (releases_url default_env ''crossplane-contrib'' ''function-foo'') = None"
    by (simp_all add: cached_world_def released_world_def)
  have a: "fetch_calls (trace (snd (inferPackageFromFunctionName default_env ?w ''function-foo'' True))) =
             [(''crossplane-contrib'', ''function-foo'')] \<and>
           requests (snd (inferPackageFromFunctionName default_env ?w ''function-foo'' True)) = 1"
    using force_refresh_always_fetches [where name = "''function-foo''" and env = default_env
        and owner = "''crossplane-contrib''" and repo = "''function-foo''" and merr = None
        and w = ?w] foo_plain foo_mapped
    by (simp add: t0)
  have s: "in_memory_store default_env (rate_limited ?w) (''crossplane-contrib'' @ ''/'' @ ''function-foo'') = Some ?e"
    by (simp add: cached_store foo_key_def)
  have b: "fst (inferPackageFromFunctionName default_env (rate_limited ?w) ''function-foo'' True) =
     Inr ''xpkg.crossplane.io/crossplane-contrib/function-foo:v0.9.2''"
    using force_refresh_always_fetches [where name = "''function-foo''" and env = default_env
        and owner = "''crossplane-contrib''" and repo = "''function-foo''" and merr = None
        and w = "rate_limited ?w" and entry = ?e
        and msg = "''GitHub API rate limit exceeded: API rate limit exceeded''"]
      foo_plain foo_mapped rate_limited_cached_fetch [of "1000 * Hour - 1"] s
    by (simp add: foo_registry)
  have n: "\<not> snd (fst (getCachedVersion default_env (clock released_world (clock_reads released_world))
             (in_memory_store default_env released_world) (''crossplane-contrib'' @ ''/'' @ ''function-foo'')))"
    by (simp add: empty_store getCachedVersion_def)
  have c: "inferPackageFromFunctionName default_env released_world ''function-foo'' True =
     inferPackageFromFunctionName default_env released_world ''function-foo'' False"
    using force_refresh_always_fetches [where name = "''function-foo''" and env = default_env
        and owner = "''crossplane-contrib''" and repo = "''function-foo''" and merr = None
        and w = released_world] foo_plain foo_mapped n
    by blast
  show ?thesis using a b c fresh_hit(1) by simp
qed

lemma registry_loop_iff:
  "registry_loop env fns name =
     (if name \<in> TrimSpace ` set fns then getUpboundPackageRegistry env
      else getDefaultPackageRegistry env)"
  by (induction fns) auto

lemma resolve_result_shape:
  assumes "resolve_result env w name owner repo force = Inr pkg"
  shows "\<exists>version. pkg = getPackageRegistry env name @ ''/'' @ owner @ ''/'' @ repo @ '':'' @ version"
  using assms
  by (auto simp: resolve_result_def packageRef_def Let_def case_prod_beta
      split: if_splits sum.splits error.splits option.splits)

lemma TrimSpace_unit_test: "TrimSpace ''function-unit-test'' = ''function-unit-test''"
  by (simp add: TrimSpace_def white_space_def HasPrefix_def)

lemma released_fetch:
  "fst (fetchLatestReleaseVersion default_env released_world owner repo) = Inr ''v1.0.0''"
  by (simp add: fetchLatestReleaseVersion_def released_world_def client_Do_def Let_def)

section \<open>Registry selection\<close>

text \<open>
  C10. \<open>getPackageRegistry\<close> returns the Upbound registry exactly when the name it is
  given equals an entry of the allow-list after \<open>strings.TrimSpace\<close> of the entry,
  and the default registry otherwise. \<open>inferPackageFromFunctionName\<close> gives it the
  function name as written in the pipeline, not the mapped repository: the package
  reference of a successful resolution starts with the registry of that name. With the
  default allow-list, \<open>unit-test\<close> is mapped to the repository \<open>function-unit-test\<close>,
  which is in the allow-list, and still gets the default registry.
\<close>

theorem registry_by_raw_name:
  "getPackageRegistry env name =
     (if name \<in> TrimSpace ` set (getUpboundFunctionNames env)
      then getUpboundPackageRegistry env else getDefaultPackageRegistry env) \<and>
   (name \<noteq> [] \<and> \<not> Contains name ''/'' \<and> \<not> Contains name '':'' \<and>
    mapFunctionNameToGitHubRepo env name = (owner, repo, merr) \<and>
    fst (inferPackageFromFunctionName env w name forceRefresh) = Inr pkg \<longrightarrow>
      (\<exists>version. pkg = getPackageRegistry env name @ ''/'' @ owner @ ''/'' @ repo @ '':'' @ version)) \<and>
   (UPBOUND_FUNCTIONS env = [] \<longrightarrow>
      mapFunctionNameToGitHubRepo env ''unit-test'' =
        (getDefaultGitHubOwner env, ''function-unit-test'', None) \<and>
      ''function-unit-test'' \<in> TrimSpace ` set (getUpboundFunctionNames env) \<and>
      getPackageRegistry env ''unit-test'' = getDefaultPackageRegistry env)"
proof -
  have a: "getPackageRegistry env name =
     (if name \<in> TrimSpace ` set (getUpboundFunctionNames env)
      then getUpboundPackageRegistry env else getDefaultPackageRegistry env)"
    by (simp add: getPackageRegistry_def registry_loop_iff)
  have b: "name \<noteq> [] \<Longrightarrow> \<not> Contains name ''/'' \<Longrightarrow> \<not> Contains name '':'' \<Longrightarrow>
    mapFunctionNameToGitHubRepo env name = (owner, repo, merr) \<Longrightarrow>
    fst (inferPackageFromFunctionName env w name forceRefresh) = Inr pkg \<Longrightarrow>
      (\<exists>version. pkg = getPackageRegistry env name @ ''/'' @ owner @ ''/'' @ repo @ '':'' @ version)"
    using infer_result [of name env owner repo merr w forceRefresh]
      resolve_result_shape [of env w name owner repo forceRefresh pkg]
    by (simp add: infer_fst)
  have c: "UPBOUND_FUNCTIONS env = [] \<Longrightarrow>
      mapFunctionNameToGitHubRepo env ''unit-test'' =
        (getDefaultGitHubOwner env, ''function-unit-test'', None) \<and>
      ''function-unit-test'' \<in> TrimSpace ` set (getUpboundFunctionNames env) \<and>
      getPackageRegistry env ''unit-test'' = getDefaultPackageRegistry env"
    by (simp add: getPackageRegistry_def getUpboundFunctionNames_def TrimSpace_unit_test
        mapFunctionNameToGitHubRepo_def HasPrefix_def Let_def)
  show ?thesis using a b c by blast
qed

theorem registry_by_raw_name_witness:
  "getPackageRegistry default_env ''function-unit-test'' = ''xpkg.upbound.io'' \<and>
   getPackageRegistry default_env ''unit-test'' = ''xpkg.crossplane.io'' \<and>
   mapFunctionNameToGitHubRepo default_env ''unit-test'' =
     (''crossplane-contrib'', ''function-unit-test'', None) \<and>
   fst (inferPackageFromFunctionName default_env released_world ''unit-test'' False) =
     Inr ''xpkg.crossplane.io/crossplane-contrib/function-unit-test:v1.0.0''"
proof -
  have u: "UPBOUND_FUNCTIONS default_env = []" by (simp add: default_env_def)
  have o: "getDefaultGitHubOwner default_env = ''crossplane-contrib''"
      "getDefaultPackageRegistry default_env = ''xpkg.crossplane.io''"
      "getUpboundPackageRegistry default_env = ''xpkg.upbound.io''"
    by (simp_all add: getDefaultGitHubOwner_def getDefaultPackageRegistry_def
        getUpboundPackageRegistry_def default_env_def)
  note t = registry_by_raw_name [where env = default_env and w = released_world
      and forceRefresh = False]
  have a: "getPackageRegistry default_env ''function-unit-test'' = ''xpkg.upbound.io''"
    using t [where name = "''function-unit-test''", THEN conjunct1] u o
    by (simp add: getUpboundFunctionNames_def TrimSpace_unit_test)
  have b: "getPackageRegistry default_env ''unit-test'' = ''xpkg.crossplane.io'' \<and>
           mapFunctionNameToGitHubRepo default_env ''unit-test'' =
             (''crossplane-contrib'', ''function-unit-test'', None)"
    using t [where name = "''unit-test''", THEN conjunct2, THEN conjunct2] u o by simp
  have p: "''unit-test'' \<noteq> [] \<and> \<not> Contains ''unit-test'' ''/'' \<and> \<not> Contains ''unit-test'' '':''"
    by (simp add: Contains_char)
  have c: "fst (inferPackageFromFunctionName default_env released_world ''unit-test'' False) =
     Inr ''xpkg.crossplane.io/crossplane-contrib/function-unit-test:v1.0.0''"
    using b p infer_result [of "''unit-test''" default_env "''crossplane-contrib''"
        "''function-unit-test''" None released_world False]
    by (simp add: infer_fst resolve_result_def empty_store getCachedVersion_def
        released_fetch packageRef_def Let_def)
  show ?thesis using a b c by simp
qed

section \<open>Loading the cache\<close>









section \<open>Properties of the extraction\<close>



end
